theory Spec2Isabelle
  imports Complex_Main
begin

section \<open>Numbers and arrays\<close>

text \<open>
  The program is TypeScript. A finite \<open>number\<close> is modelled by its real value. An array
  slot holds a finite number or nothing: \<open>None\<close> stands for whatever is not a finite
  number, that is \<open>undefined\<close> (a read beyond the end, a hole), \<open>NaN\<close> and the two
  infinities. The two zeros are one. Sums and products are rounded as the machine rounds
  them; cosine, sine and the quotients of constants are taken exactly.
\<close>

type_synonym cell = "real option"

text \<open>
  \<open>xs[k]\<close>: reading at or beyond the length yields \<open>undefined\<close>. Indices are natural
  numbers; the program never computes a negative or fractional one.
\<close>

definition js_index :: "cell list \<Rightarrow> nat \<Rightarrow> cell" where
  "js_index xs k = (if k < length xs then xs ! k else None)"

text \<open>\<open>xs[k] = val\<close>: writing beyond the length extends the array, leaving holes.\<close>

definition js_assign :: "cell list \<Rightarrow> nat \<Rightarrow> cell \<Rightarrow> cell list" where
  "js_assign xs k val =
     (if k < length xs then xs[k := val]
      else xs @ replicate (k - length xs) None @ [val])"

text \<open>
  Arithmetic is IEEE 754 binary64 with rounding to nearest, ties to even. A quotient is
  rounded to an integer, a half going to the even neighbour.
\<close>

definition round_half_even :: "real \<Rightarrow> int" where
  "round_half_even q =
     (let f = \<lfloor>q\<rfloor> in
      if q - of_int f < 1 / 2 then f
      else if 1 / 2 < q - of_int f then f + 1
      else if even f then f else f + 1)"

text \<open>
  The double nearest to a real \<open>x\<close>. The unit in the last place is \<open>2\<close> to the power
  \<open>e\<close>, 52 below the binary exponent of \<open>x\<close> and never below \<open>-1074\<close> (the subnormal
  range); \<open>x\<close> is rounded to a multiple of it. A result of magnitude \<open>2 ^ 1024\<close> or more
  is an infinity.
\<close>

definition round_double :: "real \<Rightarrow> cell" where
  "round_double x =
     (if x = 0 then Some 0
      else
        let e = max (\<lfloor>log 2 \<bar>x\<bar>\<rfloor> - 52) (- 1074);
            y = of_int (round_half_even (x / 2 powi e)) * 2 powi e
        in if 2 ^ 1024 \<le> \<bar>y\<bar> then None else Some y)"

text \<open>
  \<open>a + b\<close> and \<open>a * b\<close> on numbers: the exact result, rounded. An operand that is not a
  finite number (\<open>undefined\<close> counts as \<open>NaN\<close>) gives a result that is not one either.
\<close>

definition num_add :: "cell \<Rightarrow> cell \<Rightarrow> cell" where
  "num_add a b =
     (case a of
        None \<Rightarrow> None
      | Some x \<Rightarrow> (case b of None \<Rightarrow> None | Some y \<Rightarrow> round_double (x + y)))"

definition num_mul :: "cell \<Rightarrow> cell \<Rightarrow> cell" where
  "num_mul a b =
     (case a of
        None \<Rightarrow> None
      | Some x \<Rightarrow> (case b of None \<Rightarrow> None | Some y \<Rightarrow> round_double (x * y)))"

text \<open>
  \<open>new Error(text + raw)\<close>: the message is the fixed text followed by the array it was
  built from; the array is kept as a value rather than rendered to characters.
\<close>

datatype error = Error string "cell list"

section \<open>Vector (src/graphics/gl/Vector.ts)\<close>

record Vector =
  v :: "cell list"

text \<open>The constructor; \<open>None\<close> is the omitted argument.\<close>

definition Vector_new :: "cell list option \<Rightarrow> error + Vector" where
  "Vector_new raw =
     (case raw of
        None \<Rightarrow> Inr \<lparr>v = [Some 0, Some 0, Some 0, Some 0]\<rparr>
      | Some raw \<Rightarrow>
          if length raw \<ge> 4 then
            Inr \<lparr>v = [js_index raw 0, js_index raw 1, js_index raw 2, js_index raw 3]\<rparr>
          else
            Inl (Error ''Vector(): the length of `raw` parameter must be no fewer than 4: '' raw))"

definition Vector_get :: "Vector \<Rightarrow> cell list" where
  "Vector_get this = v this"

section \<open>Matrix (src/graphics/gl/Matrix.ts)\<close>

record Matrix =
  m :: "cell list"

text \<open>
  Matrix objects are mutable and shared by reference, so they live in a store: the list of
  all objects allocated so far, an object's address being its position.
\<close>

type_synonym ref = nat
type_synonym heap = "Matrix list"

text \<open>The fields the constructor gives a new object.\<close>

definition Matrix_init :: "cell list option \<Rightarrow> error + Matrix" where
  "Matrix_init raw =
     (case raw of
        None \<Rightarrow> Inr \<lparr>m = [
          Some 0, Some 0, Some 0, Some 0,
          Some 0, Some 0, Some 0, Some 0,
          Some 0, Some 0, Some 0, Some 0,
          Some 0, Some 0, Some 0, Some 0]\<rparr>
      | Some raw \<Rightarrow>
          if length raw \<ge> 16 then
            Inr \<lparr>m = [
              js_index raw 0, js_index raw 1, js_index raw 2, js_index raw 3,
              js_index raw 4, js_index raw 5, js_index raw 6, js_index raw 7,
              js_index raw 8, js_index raw 9, js_index raw 10, js_index raw 11,
              js_index raw 12, js_index raw 13, js_index raw 14, js_index raw 15]\<rparr>
          else
            Inl (Error ''Matrix(): the length of `raw` parameter must be no fewer than 16: '' raw))"

text \<open>\<open>new Matrix(raw)\<close>: the object is placed at the next free address.\<close>

definition Matrix_new :: "cell list option \<Rightarrow> heap \<Rightarrow> error + (ref \<times> heap)" where
  "Matrix_new raw h =
     (case Matrix_init raw of
        Inl e \<Rightarrow> Inl e
      | Inr obj \<Rightarrow> Inr (length h, h @ [obj]))"

definition Matrix_get :: "heap \<Rightarrow> ref \<Rightarrow> cell list" where
  "Matrix_get h this = m (h ! this)"

definition Matrix_at :: "heap \<Rightarrow> ref \<Rightarrow> nat \<Rightarrow> nat \<Rightarrow> cell" where
  "Matrix_at h this i j = js_index (m (h ! this)) (4 * j + i)"

definition Matrix_setAt :: "ref \<Rightarrow> nat \<Rightarrow> nat \<Rightarrow> cell \<Rightarrow> heap \<Rightarrow> heap" where
  "Matrix_setAt this i j val h =
     h[this := (h ! this)\<lparr>m := js_assign (m (h ! this)) (4 * j + i) val\<rparr>]"

text \<open>
  \<open>mul\<close>: three nested \<open>for\<close> statements. The innermost accumulates \<open>val\<close> over \<open>k\<close>, the middle
  one stores it with \<open>setAt\<close> for each \<open>j\<close>, the outer one runs over \<open>i\<close>. Every read goes
  through the store as it is at that moment.
\<close>

definition mul_val :: "heap \<Rightarrow> ref \<Rightarrow> ref \<Rightarrow> nat \<Rightarrow> nat \<Rightarrow> cell" where
  "mul_val h this m2 i j =
     fold (\<lambda>k val. num_add val (num_mul (Matrix_at h this i k) (Matrix_at h m2 k j)))
       [0..<4] (Some 0)"

definition mul_row :: "ref \<Rightarrow> ref \<Rightarrow> ref \<Rightarrow> nat \<Rightarrow> heap \<Rightarrow> heap" where
  "mul_row this m2 result i h =
     fold (\<lambda>j h. Matrix_setAt result i j (mul_val h this m2 i j) h) [0..<4] h"

definition Matrix_mul :: "ref \<Rightarrow> ref \<Rightarrow> heap \<Rightarrow> error + (ref \<times> heap)" where
  "Matrix_mul this m2 h =
     (case Matrix_new None h of
        Inl e \<Rightarrow> Inl e
      | Inr (result, h1) \<Rightarrow>
          Inr (result, fold (\<lambda>i h. mul_row this m2 result i h) [0..<4] h1))"

definition identity :: "heap \<Rightarrow> error + (ref \<times> heap)" where
  "identity = Matrix_new (Some [
     Some 1, Some 0, Some 0, Some 0,
     Some 0, Some 1, Some 0, Some 0,
     Some 0, Some 0, Some 1, Some 0,
     Some 0, Some 0, Some 0, Some 1])"

definition scaler :: "real \<Rightarrow> real \<Rightarrow> real \<Rightarrow> heap \<Rightarrow> error + (ref \<times> heap)" where
  "scaler x y z = Matrix_new (Some [
     Some x, Some 0, Some 0, Some 0,
     Some 0, Some y, Some 0, Some 0,
     Some 0, Some 0, Some z, Some 0,
     Some 0, Some 0, Some 0, Some 1])"

definition rotatorX :: "real \<Rightarrow> heap \<Rightarrow> error + (ref \<times> heap)" where
  "rotatorX r = Matrix_new (Some [
     Some 1, Some 0, Some 0, Some 0,
     Some 0, Some (cos r), Some (- sin r), Some 0,
     Some 0, Some (sin r), Some (cos r), Some 0,
     Some 0, Some 0, Some 0, Some 1])"

definition rotatorY :: "real \<Rightarrow> heap \<Rightarrow> error + (ref \<times> heap)" where
  "rotatorY r = Matrix_new (Some [
     Some (cos r), Some 0, Some (sin r), Some 0,
     Some 0, Some 1, Some 0, Some 0,
     Some (- sin r), Some 0, Some (cos r), Some 0,
     Some 0, Some 0, Some 0, Some 1])"

definition rotatorZ :: "real \<Rightarrow> heap \<Rightarrow> error + (ref \<times> heap)" where
  "rotatorZ r = Matrix_new (Some [
     Some (cos r), Some (- sin r), Some 0, Some 0,
     Some (sin r), Some (cos r), Some 0, Some 0,
     Some 0, Some 0, Some 1, Some 0,
     Some 0, Some 0, Some 0, Some 1])"

definition translator :: "real \<Rightarrow> real \<Rightarrow> real \<Rightarrow> heap \<Rightarrow> error + (ref \<times> heap)" where
  "translator x y z = Matrix_new (Some [
     Some 1, Some 0, Some 0, Some 0,
     Some 0, Some 1, Some 0, Some 0,
     Some 0, Some 0, Some 1, Some 0,
     Some x, Some y, Some z, Some 1])"


text \<open>
  A store location \<open>a\<close> holds the 4x4 matrix \<open>A\<close> when \<open>at(i, j)\<close> reads the number
  \<open>A i j\<close> for every row and column.
\<close>

definition represents :: "heap \<Rightarrow> ref \<Rightarrow> (nat \<Rightarrow> nat \<Rightarrow> real) \<Rightarrow> bool" where
  "represents h a A \<longleftrightarrow> a < length h \<and> (\<forall>i<4. \<forall>j<4. Matrix_at h a i j = Some (A i j))"

text \<open>A real is a double when rounding leaves it as it is.\<close>

definition is_double :: "real \<Rightarrow> bool" where
  "is_double x \<longleftrightarrow> round_double x = Some x"

section \<open>GLWrapper (the renderer)\<close>

text \<open>
  The WebGL context is an effect: it is modelled by the sequence of calls made on it, in
  order. What the browser and the driver answer (is there a canvas, did the shader
  compile, where is a uniform) is a parameter. Uniform locations are opaque handles; a
  shader or a buffer is identified by the kind it was created with.
\<close>

type_synonym WebGLUniformLocation = nat

datatype gl_enum =
    TRIANGLES | UNSIGNED_SHORT | FLOAT
  | COLOR_BUFFER_BIT | DEPTH_BUFFER_BIT
  | VERTEX_SHADER | FRAGMENT_SHADER | COMPILE_STATUS | LINK_STATUS
  | ARRAY_BUFFER | ELEMENT_ARRAY_BUFFER | STATIC_DRAW
  | CULL_FACE | DEPTH_TEST | LEQUAL | BLEND | SRC_ALPHA | ONE_MINUS_SRC_ALPHA

datatype WebGLShader = Shader gl_enum
datatype WebGLProgram = Program
datatype WebGLBuffer = Buffer gl_enum

datatype typed_array = Float32Array "real list" | Uint16Array "nat list"

datatype gl_call =
    CreateShader gl_enum
  | ShaderSource WebGLShader "string list"
  | CompileShader WebGLShader
  | GetShaderParameter WebGLShader gl_enum
  | DeleteShader WebGLShader
  | CreateProgram
  | AttachShader WebGLProgram WebGLShader
  | LinkProgram WebGLProgram
  | GetProgramParameter WebGLProgram gl_enum
  | DeleteProgram WebGLProgram
  | UseProgram WebGLProgram
  | GetUniformLocation WebGLProgram string
  | UniformMatrix4fv WebGLUniformLocation bool "cell list"
  | Uniform4fv WebGLUniformLocation "cell list"
  | ClearColor real real real real
  | Viewport real real real real
  | Disable gl_enum
  | Enable gl_enum
  | DepthFunc gl_enum
  | ClearDepth real
  | BlendFunc gl_enum gl_enum
  | CreateBuffer
  | BindBuffer gl_enum "WebGLBuffer option"
  | BufferData gl_enum typed_array gl_enum
  | EnableVertexAttribArray nat
  | VertexAttribPointer nat nat gl_enum bool nat nat
  | Clear "gl_enum list"
  | Flush
  | DrawElements gl_enum nat gl_enum nat

text \<open>
  An error thrown during set-up: the message text and, where the source appends one, the
  shader or buffer kind (a uniform's name is part of the text).
\<close>

datatype gl_error = GLError string "gl_enum option"

record browser =
  has_canvas :: bool
  innerWidth :: real
  innerHeight :: real
  has_webgl2 :: bool
  shader_created :: "gl_enum \<Rightarrow> bool"
  shader_compiled :: "gl_enum \<Rightarrow> bool"
  program_created :: bool
  program_linked :: bool
  uniform_location :: "string \<Rightarrow> WebGLUniformLocation option"
  buffer_created :: "gl_enum \<Rightarrow> bool"

text \<open>
  A computation on the context returns a value or throws, and in both cases leaves the
  calls it made.
\<close>

type_synonym 'a gl = "gl_call list \<Rightarrow> (gl_error + 'a) \<times> gl_call list"

definition gl_do :: "gl_call list \<Rightarrow> unit gl" where
  "gl_do cs calls = (Inr (), calls @ cs)"

definition gl_throw :: "gl_error \<Rightarrow> 'a gl" where
  "gl_throw e calls = (Inl e, calls)"

definition gl_return :: "'a \<Rightarrow> 'a gl" where
  "gl_return a calls = (Inr a, calls)"

definition gl_then :: "'a gl \<Rightarrow> ('a \<Rightarrow> 'b gl) \<Rightarrow> 'b gl" where
  "gl_then f g calls =
     (case f calls of
        (Inl e, calls') \<Rightarrow> (Inl e, calls')
      | (Inr a, calls') \<Rightarrow> g a calls')"

definition VERTEX_SHADER_IN_POS_LOCATION :: nat where "VERTEX_SHADER_IN_POS_LOCATION = 0"
definition VERTEX_SHADER_IN_UV_LOCATION :: nat where "VERTEX_SHADER_IN_UV_LOCATION = 1"

text \<open>The shader sources, line by line.\<close>

definition VERTEX_SHADER_CODE :: "string list" where
  "VERTEX_SHADER_CODE = [
     ''#version 300 es'',
     ''layout (location = 0) in vec4 inPos;'',
     ''layout (location = 1) in vec4 inUV;'',
     ''uniform mat4 uniScl;'',
     ''uniform mat4 uniRot;'',
     ''uniform mat4 uniTrs;'',
     ''uniform mat4 uniProj;'',
     ''uniform vec4 uniCol;'',
     ''out vec4 v2fCol;'',
     ''void main() {'',
     ''  gl_Position = uniProj * uniTrs * uniRot * uniScl * inPos;'',
     ''  v2fCol = uniCol;'',
     ''}'']"

definition FRAGMENT_SHADER_CODE :: "string list" where
  "FRAGMENT_SHADER_CODE = [
     ''#version 300 es'',
     ''precision highp float;'',
     ''in vec4 v2fCol;'',
     ''out vec4 outCol;'',
     ''void main() {'',
     ''  outCol = v2fCol;'',
     ''}'']"

definition createShader :: "browser \<Rightarrow> gl_enum \<Rightarrow> string list \<Rightarrow> WebGLShader gl" where
  "createShader env type code =
     gl_then (gl_do [CreateShader type]) (\<lambda>_.
     if \<not> shader_created env type then
       gl_throw (GLError ''createShader(): failed to create a shader: '' (Some type))
     else
       gl_then (gl_do [
         ShaderSource (Shader type) code,
         CompileShader (Shader type),
         GetShaderParameter (Shader type) COMPILE_STATUS]) (\<lambda>_.
       if \<not> shader_compiled env type then
         gl_then (gl_do [DeleteShader (Shader type)]) (\<lambda>_.
         gl_throw (GLError ''createShader(): failed to compile a shader: '' (Some type)))
       else gl_return (Shader type)))"

definition createProgram :: "browser \<Rightarrow> WebGLShader \<Rightarrow> WebGLShader \<Rightarrow> WebGLProgram gl" where
  "createProgram env vertexShader fragmentShader =
     gl_then (gl_do [CreateProgram]) (\<lambda>_.
     if \<not> program_created env then
       gl_throw (GLError ''createProgram(): failed to create a program.'' None)
     else
       gl_then (gl_do [
         AttachShader Program vertexShader,
         AttachShader Program fragmentShader,
         LinkProgram Program,
         GetProgramParameter Program LINK_STATUS]) (\<lambda>_.
       if \<not> program_linked env then
         gl_then (gl_do [DeleteProgram Program]) (\<lambda>_.
         gl_throw (GLError ''createProgram(): failed to link a program.'' None))
       else gl_return Program))"

definition getUniLoc :: "browser \<Rightarrow> WebGLProgram \<Rightarrow> string \<Rightarrow> WebGLUniformLocation gl" where
  "getUniLoc env program name =
     gl_then (gl_do [GetUniformLocation program name]) (\<lambda>_.
     case uniform_location env name of
       None \<Rightarrow> gl_throw (GLError (''getUniLoc(): failed to get a uniform location: '' @ name) None)
     | Some loc \<Rightarrow> gl_return loc)"

definition createBuffer :: "browser \<Rightarrow> gl_enum \<Rightarrow> typed_array \<Rightarrow> WebGLBuffer gl" where
  "createBuffer env type typedDataArray =
     gl_then (gl_do [CreateBuffer]) (\<lambda>_.
     if \<not> buffer_created env type then
       gl_throw (GLError ''createBuffer(): failed to create a buffer: '' (Some type))
     else
       gl_then (gl_do [
         BindBuffer type (Some (Buffer type)),
         BufferData type typedDataArray STATIC_DRAW,
         BindBuffer type None]) (\<lambda>_.
       gl_return (Buffer type)))"

record GLWrapper =
  uniSclLoc :: WebGLUniformLocation
  uniRotLoc :: WebGLUniformLocation
  uniTrsLoc :: WebGLUniformLocation
  uniColLoc :: WebGLUniformLocation

definition VIEWPORT_WIDTH :: real where "VIEWPORT_WIDTH = 1280"
definition VIEWPORT_HEIGHT :: real where "VIEWPORT_HEIGHT = 960"
definition VIEWPORT_DEPTH :: real where "VIEWPORT_DEPTH = 100"

text \<open>
  The canvas as the resize handler leaves it: its size, and the size of its style in
  pixels. The handler is run once by the constructor and registered for later resize
  events.
\<close>

record canvas =
  width :: real
  height :: real
  style_width :: real
  style_height :: real

definition resizing :: "real \<Rightarrow> real \<Rightarrow> canvas" where
  "resizing w0 h0 =
     (let (w, h) =
        (if w0 * VIEWPORT_HEIGHT / VIEWPORT_WIDTH < h0
         then (w0, w0 * VIEWPORT_HEIGHT / VIEWPORT_WIDTH)
         else (h0 * VIEWPORT_WIDTH / VIEWPORT_HEIGHT, h0))
      in \<lparr>width = w, height = h, style_width = w, style_height = h\<rparr>)"

text \<open>The array the constructor passes to \<open>uniformMatrix4fv(uniProjLoc, false, matProj)\<close>.\<close>

definition matProj :: "real list" where
  "matProj = [
     2 / VIEWPORT_WIDTH, 0, 0, 0,
     0, 2 / VIEWPORT_HEIGHT, 0, 0,
     0, 0, - 2 / VIEWPORT_DEPTH, 0,
     0, 0, 0, 1]"

definition vtxs :: "real list" where
  "vtxs = [
     - 0.5, - 0.5, 0.0, 1.0,
     0.0, 1.0,
     0.5, - 0.5, 0.0, 1.0,
     1.0, 1.0,
     0.5, 0.5, 0.0, 1.0,
     1.0, 0.0,
     - 0.5, 0.5, 0.0, 1.0,
     0.0, 0.0]"

definition idxs :: "nat list" where
  "idxs = [0, 1, 2, 0, 2, 3]"

definition BYTES_PER_ELEMENT :: nat where "BYTES_PER_ELEMENT = 4"

text \<open>The constructor from the point where it holds a context.\<close>

definition GLWrapper_setup :: "browser \<Rightarrow> GLWrapper gl" where
  "GLWrapper_setup env =
     gl_then (createShader env VERTEX_SHADER VERTEX_SHADER_CODE) (\<lambda>vertShader.
     gl_then (createShader env FRAGMENT_SHADER FRAGMENT_SHADER_CODE) (\<lambda>fragShader.
     gl_then (createProgram env vertShader fragShader) (\<lambda>program.
     gl_then (gl_do [UseProgram program]) (\<lambda>_.
     gl_then (getUniLoc env program ''uniScl'') (\<lambda>uniSclLoc.
     gl_then (getUniLoc env program ''uniRot'') (\<lambda>uniRotLoc.
     gl_then (getUniLoc env program ''uniTrs'') (\<lambda>uniTrsLoc.
     gl_then (getUniLoc env program ''uniProj'') (\<lambda>uniProjLoc.
     gl_then (getUniLoc env program ''uniCol'') (\<lambda>uniColLoc.
     gl_then (gl_do [
       UniformMatrix4fv uniProjLoc False (map Some matProj),
       Uniform4fv uniColLoc [Some 1, Some 1, Some 1, Some 1],
       ClearColor 0 0 0 1,
       Viewport 0 0 VIEWPORT_WIDTH VIEWPORT_HEIGHT,
       Disable CULL_FACE,
       Enable DEPTH_TEST,
       DepthFunc LEQUAL,
       ClearDepth 1.0,
       Enable BLEND,
       BlendFunc SRC_ALPHA ONE_MINUS_SRC_ALPHA]) (\<lambda>_.
     gl_then (createBuffer env ARRAY_BUFFER (Float32Array vtxs)) (\<lambda>vtxBuffer.
     gl_then (createBuffer env ELEMENT_ARRAY_BUFFER (Uint16Array idxs)) (\<lambda>idxBuffer.
     gl_then (gl_do [
       BindBuffer ARRAY_BUFFER (Some vtxBuffer),
       BindBuffer ELEMENT_ARRAY_BUFFER (Some idxBuffer),
       EnableVertexAttribArray VERTEX_SHADER_IN_POS_LOCATION,
       EnableVertexAttribArray VERTEX_SHADER_IN_UV_LOCATION,
       VertexAttribPointer VERTEX_SHADER_IN_POS_LOCATION 4 FLOAT False
         (BYTES_PER_ELEMENT * 6) (BYTES_PER_ELEMENT * 0),
       VertexAttribPointer VERTEX_SHADER_IN_UV_LOCATION 2 FLOAT False
         (BYTES_PER_ELEMENT * 6) (BYTES_PER_ELEMENT * 4)]) (\<lambda>_.
     gl_return \<lparr>uniSclLoc = uniSclLoc, uniRotLoc = uniRotLoc,
                uniTrsLoc = uniTrsLoc, uniColLoc = uniColLoc\<rparr>)))))))))))))"

text \<open>
  The constructor: the result or the error thrown, the canvas if it was found, and the
  calls made on the context.
\<close>

definition GLWrapper_new :: "browser \<Rightarrow> (gl_error + GLWrapper) \<times> canvas option \<times> gl_call list" where
  "GLWrapper_new env =
     (if \<not> has_canvas env then
        (Inl (GLError ''GLWrapper(): failed to get canvas.'' None), None, [])
      else if \<not> has_webgl2 env then
        (Inl (GLError ''GLWrapper(): failed to get webgl2 context.'' None),
         Some (resizing (innerWidth env) (innerHeight env)), [])
      else
        (case GLWrapper_setup env [] of
           (result, calls) \<Rightarrow> (result, Some (resizing (innerWidth env) (innerHeight env)), calls)))"

text \<open>
  The vertex shader's \<open>uniProj * p\<close>. The matrix was uploaded with \<open>transpose = false\<close>,
  so the sixteen numbers are read column by column: row \<open>i\<close>, column \<open>j\<close> is slot
  \<open>4 * j + i\<close>.
\<close>

definition mat4_times_vec4 :: "real list \<Rightarrow> real list \<Rightarrow> real list" where
  "mat4_times_vec4 M p = map (\<lambda>i. \<Sum>j<(4::nat). M ! (4 * j + i) * p ! j) [0..<4]"

text \<open>
  \<open>Matrix.get()\<close> and \<open>Vector.get()\<close> copy the slots into a typed array, which is what a
  call receives.
\<close>

definition GLWrapper_clear :: "GLWrapper \<Rightarrow> gl_call list \<Rightarrow> gl_call list" where
  "GLWrapper_clear this gl = gl @ [Clear [COLOR_BUFFER_BIT, DEPTH_BUFFER_BIT]]"

definition GLWrapper_flush :: "GLWrapper \<Rightarrow> gl_call list \<Rightarrow> gl_call list" where
  "GLWrapper_flush this gl = gl @ [Flush]"

definition GLWrapper_draw ::
  "GLWrapper \<Rightarrow> ref \<Rightarrow> ref \<Rightarrow> ref \<Rightarrow> Vector \<Rightarrow> heap \<Rightarrow> gl_call list \<Rightarrow> gl_call list" where
  "GLWrapper_draw this matScl matRot matTrs vecCol h gl =
     gl @ [
       UniformMatrix4fv (uniSclLoc this) False (Matrix_get h matScl),
       UniformMatrix4fv (uniRotLoc this) False (Matrix_get h matRot),
       UniformMatrix4fv (uniTrsLoc this) False (Matrix_get h matTrs),
       Uniform4fv (uniColLoc this) (Vector_get vecCol),
       DrawElements TRIANGLES 6 UNSIGNED_SHORT 0]"

text \<open>The uploads to the location \<open>loc\<close> among a sequence of calls.\<close>

fun uploads_to :: "WebGLUniformLocation \<Rightarrow> gl_call list \<Rightarrow> gl_call list" where
  "uploads_to loc [] = []"
| "uploads_to loc (UniformMatrix4fv l t a # cs) =
     (if l = loc then UniformMatrix4fv l t a # uploads_to loc cs else uploads_to loc cs)"
| "uploads_to loc (Uniform4fv l a # cs) =
     (if l = loc then Uniform4fv l a # uploads_to loc cs else uploads_to loc cs)"
| "uploads_to loc (c # cs) = uploads_to loc cs"

section \<open>Components\<close>

text \<open>
  Every object carries its prototype chain: the constructor whose \<open>prototype\<close> it is
  linked to, then that prototype's own link, up to the end of the chain.
  \<open>x instanceof type\<close> walks the chain looking for \<open>type.prototype\<close>; a constructor is
  identified by its name.
\<close>

datatype proto = Proto string "proto option"

fun in_chain :: "proto \<Rightarrow> string \<Rightarrow> bool" where
  "in_chain (Proto c parent) type =
     (c = type \<or> (case parent of None \<Rightarrow> False | Some p \<Rightarrow> in_chain p type))"

text \<open>
  \<open>IComponent\<close> is an interface; what the registry can observe of an object implementing
  it is its prototype chain and its enabled flag. Concrete classes extend the record.
\<close>

record IComponent =
  proto :: proto
  enabled :: bool

definition instanceof :: "'a IComponent_scheme \<Rightarrow> string \<Rightarrow> bool" where
  "instanceof x type = in_chain (proto x) type"

definition isEnabled :: "'a IComponent_scheme \<Rightarrow> bool" where
  "isEnabled this = enabled this"

definition enable :: "'a IComponent_scheme \<Rightarrow> 'a IComponent_scheme" where
  "enable this = this\<lparr>enabled := True\<rparr>"

definition disable :: "'a IComponent_scheme \<Rightarrow> 'a IComponent_scheme" where
  "disable this = this\<lparr>enabled := False\<rparr>"

subsection \<open>Sprite\<close>

type_synonym Position = "real \<times> real \<times> real"
type_synonym Rotation = "real \<times> real \<times> real"
type_synonym Scale = "real \<times> real"
type_synonym Color = "real \<times> real \<times> real \<times> real"

record Sprite = IComponent +
  pos :: Position
  rot :: Rotation
  scl :: Scale
  col :: Color

definition Sprite_new ::
  "Position option \<Rightarrow> Rotation option \<Rightarrow> Scale option \<Rightarrow> Color option \<Rightarrow> Sprite" where
  "Sprite_new pos0 rot0 scl0 col0 =
     \<lparr>proto = Proto ''Sprite'' None,
      enabled = True,
      pos = (case pos0 of None \<Rightarrow> (0, 0, 0) | Some p \<Rightarrow> p),
      rot = (case rot0 of None \<Rightarrow> (0, 0, 0) | Some r \<Rightarrow> r),
      scl = (case scl0 of None \<Rightarrow> (1, 1) | Some s \<Rightarrow> s),
      col = (case col0 of None \<Rightarrow> (0, 0, 0, 0) | Some c \<Rightarrow> c)\<rparr>"

definition getPosition :: "Sprite \<Rightarrow> Position" where "getPosition this = pos this"
definition getRotation :: "Sprite \<Rightarrow> Rotation" where "getRotation this = rot this"
definition getScale :: "Sprite \<Rightarrow> Scale" where "getScale this = scl this"
definition getColor :: "Sprite \<Rightarrow> Color" where "getColor this = col this"

definition setPosition :: "Position \<Rightarrow> Sprite \<Rightarrow> Sprite" where
  "setPosition p this = this\<lparr>pos := p\<rparr>"
definition setRotation :: "Rotation \<Rightarrow> Sprite \<Rightarrow> Sprite" where
  "setRotation r this = this\<lparr>rot := r\<rparr>"
definition setScale :: "Scale \<Rightarrow> Sprite \<Rightarrow> Sprite" where
  "setScale s this = this\<lparr>scl := s\<rparr>"
definition setColor :: "Color \<Rightarrow> Sprite \<Rightarrow> Sprite" where
  "setColor c this = this\<lparr>col := c\<rparr>"

text \<open>
  Sequencing of calls that allocate in the matrix store and may throw: the first error
  ends the computation.
\<close>

definition and_then ::
  "(heap \<Rightarrow> error + ('a \<times> heap)) \<Rightarrow> ('a \<Rightarrow> heap \<Rightarrow> error + ('b \<times> heap)) \<Rightarrow>
   heap \<Rightarrow> error + ('b \<times> heap)" where
  "and_then f g h = (case f h of Inl e \<Rightarrow> Inl e | Inr (a, h') \<Rightarrow> g a h')"

text \<open>
  \<open>draw\<close>: the arguments of \<open>gl.draw\<close> are evaluated from left to right, the receiver of
  a \<open>mul\<close> before its argument; then the renderer's \<open>draw\<close> is called on them.
\<close>

definition draw_args ::
  "Sprite \<Rightarrow> heap \<Rightarrow> error + ((ref \<times> ref \<times> ref \<times> Vector) \<times> heap)" where
  "draw_args this =
     (case (pos this, rot this, scl this, col this) of
        ((px, py, pz), (rx, ry, rz), (sx, sy), (r, g, b, a)) \<Rightarrow>
     and_then (scaler sx sy 1) (\<lambda>matScl.
     and_then (rotatorX rx) (\<lambda>mx.
     and_then (rotatorY ry) (\<lambda>my.
     and_then (rotatorZ rz) (\<lambda>mz.
     and_then (Matrix_mul my mz) (\<lambda>myz.
     and_then (Matrix_mul mx myz) (\<lambda>matRot.
     and_then (translator px py pz) (\<lambda>matTrs.
       (\<lambda>h. case Vector_new (Some [Some r, Some g, Some b, Some a]) of
               Inl e \<Rightarrow> Inl e
             | Inr vecCol \<Rightarrow> Inr ((matScl, matRot, matTrs, vecCol), h))))))))))"

definition Sprite_draw ::
  "Sprite \<Rightarrow> GLWrapper \<Rightarrow> heap \<times> gl_call list \<Rightarrow> error + (heap \<times> gl_call list)" where
  "Sprite_draw this gl w =
     (case draw_args this (fst w) of
        Inl e \<Rightarrow> Inl e
      | Inr ((matScl, matRot, matTrs, vecCol), h') \<Rightarrow>
          Inr (h', GLWrapper_draw gl matScl matRot matTrs vecCol h' (snd w)))"

subsection \<open>ComponentManager\<close>

text \<open>
  The registry holds references to component objects, which live in a store of their own
  (a reference held by the registry is the address of a live object).
\<close>

record ComponentManager =
  components :: "ref list"

definition ComponentManager_new :: ComponentManager where
  "ComponentManager_new = \<lparr>components = []\<rparr>"

definition add :: "ref \<Rightarrow> ComponentManager \<Rightarrow> ComponentManager" where
  "add component this = this\<lparr>components := components this @ [component]\<rparr>"

text \<open>The loop of \<open>get\<close> over the stored references, \<open>res\<close> being the array built so far.\<close>

fun get_loop :: "'a IComponent_scheme list \<Rightarrow> string \<Rightarrow> ref list \<Rightarrow> ref list \<Rightarrow> ref list" where
  "get_loop s type [] res = res"
| "get_loop s type (n # ns) res =
     get_loop s type ns (if instanceof (s ! n) type then res @ [n] else res)"

text \<open>\<open>get\<close> returns the new array together with the registry as it leaves it.\<close>

definition get ::
  "string \<Rightarrow> 'a IComponent_scheme list \<Rightarrow> ComponentManager \<Rightarrow> ref list \<times> ComponentManager" where
  "get type s this = (get_loop s type (components this) [], this)"

section \<open>Properties\<close>

subsection \<open>Arrays and constructors\<close>

lemma upt_0_4: "[0..<4] = [0, 1, 2, 3]"
  by (simp add: upt_rec)

lemma upt_0_16: "[0..<16] = [0, 1, 2, 3, 4, 5, 6, 7, 8, 9, 10, 11, 12, 13, 14, 15]"
  by (simp add: upt_rec)

lemma sum_lessThan_2: "(\<Sum>k<(2::nat). f k) = f 0 + (f 1 :: real)"
  by (simp add: numeral_eq_Suc)

lemma sum_lessThan_3: "(\<Sum>k<(3::nat). f k) = f 0 + f 1 + (f 2 :: real)"
  by (simp add: numeral_eq_Suc)

lemma sum_lessThan_4: "(\<Sum>k<(4::nat). f k) = f 0 + f 1 + f 2 + (f 3 :: real)"
  by (simp add: numeral_eq_Suc)

lemma js_index_assign_same: "js_index (js_assign xs k val) k = val"
  by (simp add: js_index_def js_assign_def nth_append)

lemma js_index_assign_other: "k' \<noteq> k \<Longrightarrow> js_index (js_assign xs k val) k' = js_index xs k'"
  by (auto simp add: js_index_def js_assign_def nth_append)

lemma slot_inj: "i < 4 \<Longrightarrow> i' < 4 \<Longrightarrow> 4 * j + i = 4 * j' + i' \<longleftrightarrow> i = i' \<and> j = (j'::nat)"
  by presburger

lemma first_slots_take:
  assumes "n \<le> length raw"
  shows "map (js_index raw) [0..<n] = take n raw"
proof (rule nth_equalityI)
  show "length (map (js_index raw) [0..<n]) = length (take n raw)"
    using assms by simp
next
  fix k assume "k < length (map (js_index raw) [0..<n])"
  with assms show "map (js_index raw) [0..<n] ! k = take n raw ! k"
    by (simp add: js_index_def)
qed

lemma Vector_new_Some:
  "4 \<le> length raw \<Longrightarrow> Vector_new (Some raw) = Inr \<lparr>v = map (js_index raw) [0..<4]\<rparr>"
  by (simp add: Vector_new_def upt_0_4)

lemma Matrix_init_Some:
  "16 \<le> length raw \<Longrightarrow> Matrix_init (Some raw) = Inr \<lparr>m = map (js_index raw) [0..<16]\<rparr>"
  by (simp add: Matrix_init_def upt_0_16 del: upt_Suc)

text \<open>
  C6. A vector built from fewer than 4 slots, or a matrix from fewer than 16, throws an
  error whose message carries the offending array. From at least that many slots the
  construction succeeds and keeps exactly the first 4 (16) of them. With no argument the
  vector (matrix) is all zero.
\<close>

theorem constructors_check_length:
  "(length raw < 4 \<longrightarrow>
      Vector_new (Some raw) =
        Inl (Error ''Vector(): the length of `raw` parameter must be no fewer than 4: '' raw)) \<and>
   (4 \<le> length raw \<longrightarrow> Vector_new (Some raw) = Inr \<lparr>v = take 4 raw\<rparr>) \<and>
   Vector_new None = Inr \<lparr>v = replicate 4 (Some 0)\<rparr> \<and>
   (length raw < 16 \<longrightarrow>
      Matrix_new (Some raw) h =
        Inl (Error ''Matrix(): the length of `raw` parameter must be no fewer than 16: '' raw)) \<and>
   (16 \<le> length raw \<longrightarrow> Matrix_new (Some raw) h = Inr (length h, h @ [\<lparr>m = take 16 raw\<rparr>])) \<and>
   Matrix_new None h = Inr (length h, h @ [\<lparr>m = replicate 16 (Some 0)\<rparr>])"
proof (intro conjI impI)
  show "Vector_new (Some raw) =
      Inl (Error ''Vector(): the length of `raw` parameter must be no fewer than 4: '' raw)"
    if "length raw < 4"
    using that by (simp add: Vector_new_def)
  show "Vector_new (Some raw) = Inr \<lparr>v = take 4 raw\<rparr>" if "4 \<le> length raw"
    using that by (simp only: Vector_new_Some first_slots_take)
  show "Vector_new None = Inr \<lparr>v = replicate 4 (Some 0)\<rparr>"
    by (simp add: Vector_new_def numeral_eq_Suc)
  show "Matrix_new (Some raw) h =
      Inl (Error ''Matrix(): the length of `raw` parameter must be no fewer than 16: '' raw)"
    if "length raw < 16"
    using that by (simp add: Matrix_new_def Matrix_init_def)
  show "Matrix_new (Some raw) h = Inr (length h, h @ [\<lparr>m = take 16 raw\<rparr>])"
    if "16 \<le> length raw"
    using that by (simp add: Matrix_new_def Matrix_init_Some first_slots_take del: upt_Suc)
  show "Matrix_new None h = Inr (length h, h @ [\<lparr>m = replicate 16 (Some 0)\<rparr>])"
    by (simp add: Matrix_new_def Matrix_init_def numeral_eq_Suc)
qed

theorem constructors_check_length_witness:
  "length [Some 1, Some 2, Some (3::real)] < 4 \<and>
   Vector_new (Some [Some 1, Some 2, Some 3]) =
     Inl (Error ''Vector(): the length of `raw` parameter must be no fewer than 4: ''
            [Some 1, Some 2, Some 3]) \<and>
   length [Some 1, Some 2, Some (3::real)] < 16 \<and>
   Matrix_new (Some [Some 1, Some 2, Some 3]) [] =
     Inl (Error ''Matrix(): the length of `raw` parameter must be no fewer than 16: ''
            [Some 1, Some 2, Some 3]) \<and>
   4 \<le> length [Some 1, Some 2, Some 3, Some 4, Some (5::real)] \<and>
   Vector_new (Some [Some 1, Some 2, Some 3, Some 4, Some 5]) =
     Inr \<lparr>v = [Some 1, Some 2, Some 3, Some 4]\<rparr> \<and>
   16 \<le> length (map (\<lambda>k. Some (real k)) [0..<17]) \<and>
   Matrix_new (Some (map (\<lambda>k. Some (real k)) [0..<17])) [] =
     Inr (0, [\<lparr>m = map (\<lambda>k. Some (real k)) [0..<16]\<rparr>])"
  using constructors_check_length [of "[Some 1, Some 2, Some 3]" "[]"]
    constructors_check_length [of "[Some 1, Some 2, Some 3, Some 4, Some 5]" "[]"]
    constructors_check_length [of "map (\<lambda>k. Some (real k)) [0..<17]" "[]"]
  by (simp add: take_map del: upt_Suc)


subsection \<open>Accessors\<close>

lemma Matrix_at_append:
  "this < length h \<Longrightarrow> Matrix_at (h @ g) this i j = Matrix_at h this i j"
  by (simp add: Matrix_at_def nth_append)

lemma Matrix_at_last:
  "Matrix_at (h @ [obj]) (length h) i j = js_index (m obj) (4 * j + i)"
  by (simp add: Matrix_at_def)

lemma Matrix_setAt_last:
  "Matrix_setAt (length h) i j val (h @ [obj]) =
     h @ [obj\<lparr>m := js_assign (m obj) (4 * j + i) val\<rparr>]"
  by (simp add: Matrix_setAt_def)

lemma Matrix_at_setAt_same:
  "this < length h \<Longrightarrow> Matrix_at (Matrix_setAt this i j val h) this i j = val"
  by (simp add: Matrix_at_def Matrix_setAt_def js_index_assign_same)

lemma Matrix_at_setAt_other:
  assumes "this < length h" "i < 4" "i' < 4" "(i', j') \<noteq> (i, j)"
  shows "Matrix_at (Matrix_setAt this i j val h) this i' j' = Matrix_at h this i' j'"
proof -
  from assms have "4 * j' + i' \<noteq> 4 * j + i"
    by (simp add: slot_inj)
  with assms(1) show ?thesis
    by (simp add: Matrix_at_def Matrix_setAt_def js_index_assign_other)
qed

text \<open>
  C3. The accessors address a matrix by row and column over the column-major array:
  right after construction from \<open>raw\<close> (16 slots or more), \<open>at(i, j)\<close> reads
  \<open>raw[4 * j + i]\<close>; and on any matrix of the store, after \<open>setAt(i, j, val)\<close> the entry
  \<open>(i, j)\<close> reads \<open>val\<close>, every other entry reads what it read before, and no other object
  of the store has changed.
\<close>

theorem at_setAt_row_column:
  assumes "16 \<le> length raw" and "this < length h" and "i < 4" and "j < 4"
  shows "(\<exists>h1. Matrix_new (Some raw) h = Inr (length h, h1) \<and>
            Matrix_at h1 (length h) i j = raw ! (4 * j + i)) \<and>
         Matrix_at (Matrix_setAt this i j val h) this i j = val \<and>
         (\<forall>i'<4. \<forall>j'<4. (i', j') \<noteq> (i, j) \<longrightarrow>
            Matrix_at (Matrix_setAt this i j val h) this i' j' = Matrix_at h this i' j') \<and>
         length (Matrix_setAt this i j val h) = length h \<and>
         (\<forall>p<length h. p \<noteq> this \<longrightarrow> Matrix_setAt this i j val h ! p = h ! p)"
proof (intro conjI)
  from assms have slot: "4 * j + i < 16" by simp
  have "Matrix_new (Some raw) h = Inr (length h, h @ [\<lparr>m = map (js_index raw) [0..<16]\<rparr>])"
    using assms(1) by (simp add: Matrix_new_def Matrix_init_Some del: upt_Suc)
  moreover have "Matrix_at (h @ [\<lparr>m = map (js_index raw) [0..<16]\<rparr>]) (length h) i j
      = raw ! (4 * j + i)"
    using slot assms(1) by (simp add: Matrix_at_last js_index_def del: upt_Suc)
  ultimately show "\<exists>h1. Matrix_new (Some raw) h = Inr (length h, h1) \<and>
      Matrix_at h1 (length h) i j = raw ! (4 * j + i)"
    by blast
  show "Matrix_at (Matrix_setAt this i j val h) this i j = val"
    using assms(2) by (rule Matrix_at_setAt_same)
  show "\<forall>i'<4. \<forall>j'<4. (i', j') \<noteq> (i, j) \<longrightarrow>
      Matrix_at (Matrix_setAt this i j val h) this i' j' = Matrix_at h this i' j'"
    using assms(2,3) by (blast intro: Matrix_at_setAt_other)
  show "length (Matrix_setAt this i j val h) = length h"
    by (simp add: Matrix_setAt_def)
  show "\<forall>p<length h. p \<noteq> this \<longrightarrow> Matrix_setAt this i j val h ! p = h ! p"
    by (simp add: Matrix_setAt_def)
qed


theorem at_setAt_row_column_witness:
  "16 \<le> length (map (\<lambda>k. Some (real k)) [0..<16]) \<and> (0::nat) < length [\<lparr>m = map (\<lambda>k. Some (real k)) [0..<16]\<rparr>] \<and>
   (2::nat) < 4 \<and> (1::nat) < 4 \<and>
   Matrix_at (Matrix_setAt 0 2 1 (Some 7) [\<lparr>m = map (\<lambda>k. Some (real k)) [0..<16]\<rparr>]) 0 2 1 = Some 7 \<and>
   Matrix_at (Matrix_setAt 0 2 1 (Some 7) [\<lparr>m = map (\<lambda>k. Some (real k)) [0..<16]\<rparr>]) 0 1 2 = Some 9"
  using at_setAt_row_column [of "map (\<lambda>k. Some (real k)) [0..<16]" 0 "[\<lparr>m = map (\<lambda>k. Some (real k)) [0..<16]\<rparr>]" 2 1 "Some 7"]
  apply (simp del: upt_Suc)
  apply (simp add: Matrix_at_def js_index_def del: upt_Suc)
  done


subsection \<open>Static constructors\<close>

lemma Matrix_new_16:
  "Matrix_new (Some [a0, a1, a2, a3, a4, a5, a6, a7, a8, a9, a10, a11, a12, a13, a14, a15]) h =
     Inr (length h, h @ [\<lparr>m = [a0, a1, a2, a3, a4, a5, a6, a7, a8, a9, a10, a11, a12, a13, a14, a15]\<rparr>])"
  by (simp add: Matrix_new_def Matrix_init_def js_index_def)

lemma Matrix_new_None:
  "Matrix_new None h = Inr (length h, h @ [\<lparr>m = [
      Some 0, Some 0, Some 0, Some 0,
      Some 0, Some 0, Some 0, Some 0,
      Some 0, Some 0, Some 0, Some 0,
      Some 0, Some 0, Some 0, Some 0]\<rparr>])"
  by (simp add: Matrix_new_def Matrix_init_def)

text \<open>
  What the rotators hold, read by row and column: the sine terms sit on the other side of
  the diagonal than in the right-handed rotation by \<open>r\<close>.
\<close>

lemma rotatorZ_entries:
  "\<exists>h'. rotatorZ r h = Inr (length h, h') \<and>
     Matrix_at h' (length h) 0 0 = Some (cos r) \<and> Matrix_at h' (length h) 0 1 = Some (sin r) \<and>
     Matrix_at h' (length h) 1 0 = Some (- sin r) \<and> Matrix_at h' (length h) 1 1 = Some (cos r)"
  by (simp add: rotatorZ_def Matrix_new_16 Matrix_at_last js_index_def)

lemma rotatorX_entries:
  "\<exists>h'. rotatorX r h = Inr (length h, h') \<and>
     Matrix_at h' (length h) 1 1 = Some (cos r) \<and> Matrix_at h' (length h) 1 2 = Some (sin r) \<and>
     Matrix_at h' (length h) 2 1 = Some (- sin r) \<and> Matrix_at h' (length h) 2 2 = Some (cos r)"
  by (simp add: rotatorX_def Matrix_new_16 Matrix_at_last js_index_def)

lemma rotatorY_entries:
  "\<exists>h'. rotatorY r h = Inr (length h, h') \<and>
     Matrix_at h' (length h) 0 0 = Some (cos r) \<and> Matrix_at h' (length h) 0 2 = Some (- sin r) \<and>
     Matrix_at h' (length h) 2 0 = Some (sin r) \<and> Matrix_at h' (length h) 2 2 = Some (cos r)"
  by (simp add: rotatorY_def Matrix_new_16 Matrix_at_last js_index_def)

text \<open>
  C1. At a quarter turn, \<open>r = pi / 2\<close>, the right-handed rotation about Z has
  \<open>at(0, 1) = - sin r = -1\<close> and \<open>at(1, 0) = sin r = 1\<close>; \<open>rotatorZ\<close> yields the opposite
  signs, and so do \<open>rotatorX\<close> at \<open>(1, 2)\<close>, \<open>(2, 1)\<close> and \<open>rotatorY\<close> at \<open>(0, 2)\<close>, \<open>(2, 0)\<close>.
\<close>

theorem rotators_quarter_turn:
  "(\<exists>h'. rotatorZ (pi / 2) [] = Inr (0, h') \<and>
      Matrix_at h' 0 0 1 = Some 1 \<and> Matrix_at h' 0 1 0 = Some (- 1)) \<and>
   (\<exists>h'. rotatorX (pi / 2) [] = Inr (0, h') \<and>
      Matrix_at h' 0 1 2 = Some 1 \<and> Matrix_at h' 0 2 1 = Some (- 1)) \<and>
   (\<exists>h'. rotatorY (pi / 2) [] = Inr (0, h') \<and>
      Matrix_at h' 0 0 2 = Some (- 1) \<and> Matrix_at h' 0 2 0 = Some 1)"
  by (simp add: rotatorZ_def rotatorX_def rotatorY_def Matrix_new_16 Matrix_at_def js_index_def)

subsection \<open>Multiplication\<close>

lemma mul_val_append:
  "this < length h \<Longrightarrow> m2 < length h \<Longrightarrow> mul_val (h @ g) this m2 i j = mul_val h this m2 i j"
  by (simp add: mul_val_def Matrix_at_append)

lemma mul_row_last:
  assumes "this < length h" "m2 < length h"
  shows "mul_row this m2 (length h) i (h @ [obj]) =
     h @ [obj\<lparr>m := fold (\<lambda>j ms. js_assign ms (4 * j + i) (mul_val h this m2 i j)) [0..<4] (m obj)\<rparr>]"
  using assms by (simp add: mul_row_def upt_0_4 Matrix_setAt_last mul_val_append)

lemma Matrix_mul_store:
  assumes "this < length h" "m2 < length h"
  shows "Matrix_mul this m2 h =
     Inr (length h,
          h @ [\<lparr>m = map (\<lambda>idx. mul_val h this m2 (idx mod 4) (idx div 4)) [0..<16]\<rparr>])"
  using assms
  by (simp add: Matrix_mul_def Matrix_new_None upt_0_4 upt_0_16 mul_row_last js_assign_def
      del: upt_Suc)

lemma floor_log2_powi:
  assumes "0 < x" "2 powi k \<le> x" "x < 2 powi (k + 1)"
  shows "\<lfloor>log 2 x\<rfloor> = k"
proof -
  have a: "2 powr real_of_int k = (2::real) powi k"
    by (rule powr_real_of_int') simp_all
  have b: "2 powr real_of_int (k + 1) = (2::real) powi (k + 1)"
    by (rule powr_real_of_int') simp_all
  from assms(2,3) have "2 powr real_of_int k \<le> x \<and> x < 2 powr real_of_int (k + 1)"
    by (simp only: a b)
  with assms(1) show ?thesis
    using floor_log_eq_powr_iff [of x 2 k] by simp
qed

lemma round_double_binade:
  assumes "x \<noteq> 0" "2 powi k \<le> \<bar>x\<bar>" "\<bar>x\<bar> < 2 powi (k + 1)"
  shows "round_double x =
     (let e = max (k - 52) (- 1074);
          y = of_int (round_half_even (x / 2 powi e)) * 2 powi e
      in if 2 ^ 1024 \<le> \<bar>y\<bar> then None else Some y)"
proof -
  from assms have "\<lfloor>log 2 \<bar>x\<bar>\<rfloor> = k"
    by (intro floor_log2_powi) simp_all
  with assms(1) show ?thesis
    by (simp add: round_double_def)
qed

lemma round_double_0: "round_double 0 = Some 0"
  by (simp add: round_double_def)

lemma round_double_1: "round_double 1 = Some 1"
  using round_double_binade [of 1 0]
  by (simp add: round_half_even_def power_int_minus)

lemma round_double_9: "round_double 9 = Some 9"
  using round_double_binade [of 9 3]
  by (simp add: round_half_even_def power_int_minus)

lemma round_double_2_53: "round_double 9007199254740992 = Some 9007199254740992"
  using round_double_binade [of 9007199254740992 53]
  by (simp add: round_half_even_def)

text \<open>The tie: \<open>2 ^ 53 + 1\<close> lies halfway between two doubles and goes to the even one.\<close>

lemma round_double_2_53_plus_1: "round_double 9007199254740993 = Some 9007199254740992"
  using round_double_binade [of 9007199254740993 53]
  by (simp add: round_half_even_def)

lemma mul_val_represents:
  assumes "represents h this A" "represents h m2 B" "i < 4" "j < 4"
  shows "mul_val h this m2 i j =
     fold (\<lambda>k val. num_add val (num_mul (Some (A i k)) (Some (B k j)))) [0..<4] (Some 0)"
  using assms by (simp add: represents_def mul_val_def upt_0_4)

lemma exact_accumulation:
  assumes prods: "\<forall>k<4. is_double (a k * b k)"
    and sums: "\<forall>n\<le>4. is_double (\<Sum>k<n. a k * b k)"
  shows "fold (\<lambda>k val. num_add val (num_mul (Some (a k)) (Some (b k)))) [0..<4] (Some 0) =
     Some (\<Sum>k<(4::nat). a k * b k)"
proof -
  from prods have p: "round_double (a 0 * b 0) = Some (a 0 * b 0)"
    "round_double (a 1 * b 1) = Some (a 1 * b 1)"
    "round_double (a 2 * b 2) = Some (a 2 * b 2)"
    "round_double (a 3 * b 3) = Some (a 3 * b 3)"
    by (simp_all add: is_double_def)
  from sums have "is_double (\<Sum>k<2. a k * b k)" "is_double (\<Sum>k<3. a k * b k)"
    "is_double (\<Sum>k<4. a k * b k)"
    by simp_all
  note s = this [unfolded sum_lessThan_2 sum_lessThan_3 sum_lessThan_4 is_double_def]
  show ?thesis
    by (simp add: upt_0_4 num_add_def num_mul_def p s sum_lessThan_4 del: One_nat_def)
qed

text \<open>
  C2, as the program computes it. For matrices \<open>A\<close> at \<open>this\<close> and \<open>B\<close> at \<open>m2\<close>
  (possibly the same object), \<open>this.mul(m2)\<close> does not throw; it returns an address that
  was not allocated before, and every object allocated before the call, \<open>this\<close> and \<open>m2\<close>
  among them, is left as it was. Entry \<open>(i, j)\<close> of the new object is what accumulating
  from \<open>0\<close> the products \<open>A i k * B k j\<close> for \<open>k = 0, 1, 2, 3\<close> in this order gives, each
  product and each sum rounded to a double. It is the exact sum of products whenever
  every product and every partial sum is a double.
\<close>

theorem mul_accumulates_rounded_products:
  assumes "represents h this A" and "represents h m2 B"
  shows "\<exists>h'. Matrix_mul this m2 h = Inr (length h, h') \<and>
           length h' = Suc (length h) \<and>
           (\<forall>p<length h. h' ! p = h ! p) \<and>
           (\<forall>i<4. \<forall>j<4.
              Matrix_at h' (length h) i j =
                fold (\<lambda>k val. num_add val (num_mul (Some (A i k)) (Some (B k j))))
                  [0..<4] (Some 0) \<and>
              ((\<forall>k<4. is_double (A i k * B k j)) \<and>
               (\<forall>n\<le>4. is_double (\<Sum>k<n. A i k * B k j)) \<longrightarrow>
                 Matrix_at h' (length h) i j = Some (\<Sum>k<4. A i k * B k j)))"
proof -
  let ?obj = "\<lparr>m = map (\<lambda>idx. mul_val h this m2 (idx mod 4) (idx div 4)) [0..<16]\<rparr>"
  let ?acc = "\<lambda>i j. fold (\<lambda>k val. num_add val (num_mul (Some (A i k)) (Some (B k j))))
      [0..<4] (Some 0)"
  from assms have valid: "this < length h" "m2 < length h"
    by (simp_all add: represents_def)
  then have run: "Matrix_mul this m2 h = Inr (length h, h @ [?obj])"
    by (rule Matrix_mul_store)
  have entries: "Matrix_at (h @ [?obj]) (length h) i j = ?acc i j"
    if "i < 4" "j < 4" for i j
  proof -
    from that have "4 * j + i < 16" by simp
    then have "Matrix_at (h @ [?obj]) (length h) i j =
        mul_val h this m2 ((4 * j + i) mod 4) ((4 * j + i) div 4)"
      by (simp add: Matrix_at_last js_index_def del: upt_Suc)
    also from that have "\<dots> = mul_val h this m2 i j" by simp
    also from assms that have "\<dots> = ?acc i j" by (rule mul_val_represents)
    finally show ?thesis .
  qed
  have exact: "Matrix_at (h @ [?obj]) (length h) i j = Some (\<Sum>k<4. A i k * B k j)"
    if "i < 4" "j < 4" "\<forall>k<4. is_double (A i k * B k j)"
      "\<forall>n\<le>4. is_double (\<Sum>k<n. A i k * B k j)" for i j
    using entries [OF that(1,2)] exact_accumulation [OF that(3,4)] by simp
  show ?thesis
  proof (intro exI [of _ "h @ [?obj]"] conjI allI impI)
    show "Matrix_mul this m2 h = Inr (length h, h @ [?obj])" by (rule run)
    show "length (h @ [?obj]) = Suc (length h)" by simp
    show "(h @ [?obj]) ! p = h ! p" if "p < length h" for p
      using that by (simp add: nth_append)
    show "Matrix_at (h @ [?obj]) (length h) i j = ?acc i j" if "i < 4" "j < 4" for i j
      using that by (rule entries)
    show "Matrix_at (h @ [?obj]) (length h) i j = Some (\<Sum>k<4. A i k * B k j)"
      if "i < 4" "j < 4"
        "(\<forall>k<4. is_double (A i k * B k j)) \<and> (\<forall>n\<le>4. is_double (\<Sum>k<n. A i k * B k j))"
      for i j
      using that by (intro exact) simp_all
  qed
qed

lemma less_4_cases: "i < 4 \<Longrightarrow> i = 0 \<or> i = 1 \<or> i = 2 \<or> i = (3::nat)"
  by arith

lemma represents_diag:
  "represents
     [\<lparr>m = [Some 2, Some 0, Some 0, Some 0,  Some 0, Some 3, Some 0, Some 0,
            Some 0, Some 0, Some 1, Some 0,  Some 0, Some 0, Some 0, Some 1]\<rparr>] 0
     (\<lambda>i j. if i = j then [2, 3, 1, 1] ! i else 0)"
  unfolding represents_def
proof (intro conjI allI impI)
  fix i j :: nat assume "i < 4" "j < 4"
  then have "i = 0 \<or> i = 1 \<or> i = 2 \<or> i = 3" "j = 0 \<or> j = 1 \<or> j = 2 \<or> j = 3"
    by (blast dest: less_4_cases)+
  then show "Matrix_at
      [\<lparr>m = [Some 2, Some 0, Some 0, Some 0,  Some 0, Some 3, Some 0, Some 0,
             Some 0, Some 0, Some 1, Some 0,  Some 0, Some 0, Some 0, Some 1]\<rparr>] 0 i j =
      Some (if i = j then [2, 3, 1, 1] ! i else 0)"
    by (elim disjE) (simp_all add: Matrix_at_def js_index_def)
qed simp

theorem mul_accumulates_rounded_products_witness:
  "represents
     [\<lparr>m = [Some 2, Some 0, Some 0, Some 0,  Some 0, Some 3, Some 0, Some 0,
            Some 0, Some 0, Some 1, Some 0,  Some 0, Some 0, Some 0, Some 1]\<rparr>] 0
     (\<lambda>i j. if i = j then [2, 3, 1, 1] ! i else 0) \<and>
   (\<exists>h'. Matrix_mul 0 0
            [\<lparr>m = [Some 2, Some 0, Some 0, Some 0,  Some 0, Some 3, Some 0, Some 0,
                   Some 0, Some 0, Some 1, Some 0,  Some 0, Some 0, Some 0, Some 1]\<rparr>] =
          Inr (1, h') \<and>
      h' ! 0 = \<lparr>m = [Some 2, Some 0, Some 0, Some 0,  Some 0, Some 3, Some 0, Some 0,
                     Some 0, Some 0, Some 1, Some 0,  Some 0, Some 0, Some 0, Some 1]\<rparr> \<and>
      Matrix_at h' 1 1 1 = Some 9)"
proof -
  let ?S = "\<lparr>m = [Some 2, Some 0, Some 0, Some 0,  Some 0, Some 3, Some 0, Some 0,
                  Some 0, Some 0, Some 1, Some 0,  Some 0, Some 0, Some 0, Some (1::real)]\<rparr>"
  let ?D = "\<lambda>i j. if i = j then [2, 3, 1, 1] ! i else (0::real)"
  have prods: "\<forall>k<4. is_double (?D 1 k * ?D k 1)"
    by (auto simp add: is_double_def round_double_0 round_double_9)
  have sums: "\<forall>n\<le>4. is_double (\<Sum>k<n. ?D 1 k * ?D k 1)"
  proof (intro allI impI)
    fix n :: nat assume "n \<le> 4"
    then have "n = 0 \<or> n = 1 \<or> n = 2 \<or> n = 3 \<or> n = 4" by arith
    then show "is_double (\<Sum>k<n. ?D 1 k * ?D k 1)"
      by (elim disjE)
        (simp_all add: is_double_def round_double_0 round_double_9 numeral_eq_Suc)
  qed
  from mul_accumulates_rounded_products [OF represents_diag represents_diag]
  obtain h' where run: "Matrix_mul 0 0 [?S] = Inr (length [?S], h')"
    and old: "\<forall>p<length [?S]. h' ! p = [?S] ! p"
    and exact: "\<And>i j. \<lbrakk>i < 4; j < 4; \<forall>k<4. is_double (?D i k * ?D k j);
        \<forall>n\<le>4. is_double (\<Sum>k<n. ?D i k * ?D k j)\<rbrakk> \<Longrightarrow>
        Matrix_at h' (length [?S]) i j = Some (\<Sum>k<4. ?D i k * ?D k j)"
    by blast
  have "Matrix_at h' (length [?S]) 1 1 = Some (\<Sum>k<4. ?D 1 k * ?D k 1)"
    by (rule exact [OF _ _ prods sums]) simp_all
  then have "Matrix_at h' 1 1 1 = Some 9"
    by (simp add: sum_lessThan_4)
  moreover from old have "h' ! 0 = ?S" by simp
  moreover from run have "Matrix_mul 0 0 [?S] = Inr (1, h')" by simp
  ultimately show ?thesis
    using represents_diag by blast
qed

text \<open>
  C2, as the claim states it, fails. Let \<open>P\<close> have \<open>at(0, 0) = 2 ^ 53\<close> and
  \<open>at(0, 1) = 1\<close>, let \<open>Q\<close> have \<open>at(0, 0) = 1\<close> and \<open>at(1, 0) = 1\<close>, all other entries
  \<open>0\<close>. The sum of products for entry \<open>(0, 0)\<close> is \<open>2 ^ 53 + 1\<close>; \<open>P.mul(Q)\<close> holds
  \<open>2 ^ 53\<close> there.
\<close>

theorem mul_rounds_counterexample:
  "Matrix_at
     [\<lparr>m = [Some 9007199254740992, Some 0, Some 0, Some 0,  Some 1, Some 0, Some 0, Some 0,
            Some 0, Some 0, Some 0, Some 0,  Some 0, Some 0, Some 0, Some 0]\<rparr>,
      \<lparr>m = [Some 1, Some 1, Some 0, Some 0,  Some 0, Some 0, Some 0, Some 0,
            Some 0, Some 0, Some 0, Some 0,  Some 0, Some 0, Some 0, Some 0]\<rparr>] 0 0 0 =
     Some 9007199254740992 \<and>
   Matrix_at
     [\<lparr>m = [Some 9007199254740992, Some 0, Some 0, Some 0,  Some 1, Some 0, Some 0, Some 0,
            Some 0, Some 0, Some 0, Some 0,  Some 0, Some 0, Some 0, Some 0]\<rparr>,
      \<lparr>m = [Some 1, Some 1, Some 0, Some 0,  Some 0, Some 0, Some 0, Some 0,
            Some 0, Some 0, Some 0, Some 0,  Some 0, Some 0, Some 0, Some 0]\<rparr>] 0 0 1 =
     Some 1 \<and>
   Matrix_at
     [\<lparr>m = [Some 9007199254740992, Some 0, Some 0, Some 0,  Some 1, Some 0, Some 0, Some 0,
            Some 0, Some 0, Some 0, Some 0,  Some 0, Some 0, Some 0, Some 0]\<rparr>,
      \<lparr>m = [Some 1, Some 1, Some 0, Some 0,  Some 0, Some 0, Some 0, Some 0,
            Some 0, Some 0, Some 0, Some 0,  Some 0, Some 0, Some 0, Some 0]\<rparr>] 1 0 0 =
     Some 1 \<and>
   Matrix_at
     [\<lparr>m = [Some 9007199254740992, Some 0, Some 0, Some 0,  Some 1, Some 0, Some 0, Some 0,
            Some 0, Some 0, Some 0, Some 0,  Some 0, Some 0, Some 0, Some 0]\<rparr>,
      \<lparr>m = [Some 1, Some 1, Some 0, Some 0,  Some 0, Some 0, Some 0, Some 0,
            Some 0, Some 0, Some 0, Some 0,  Some 0, Some 0, Some 0, Some 0]\<rparr>] 1 1 0 =
     Some 1 \<and>
   Matrix_mul 0 1
     [\<lparr>m = [Some 9007199254740992, Some 0, Some 0, Some 0,  Some 1, Some 0, Some 0, Some 0,
            Some 0, Some 0, Some 0, Some 0,  Some 0, Some 0, Some 0, Some 0]\<rparr>,
      \<lparr>m = [Some 1, Some 1, Some 0, Some 0,  Some 0, Some 0, Some 0, Some 0,
            Some 0, Some 0, Some 0, Some 0,  Some 0, Some 0, Some 0, Some 0]\<rparr>] =
     Inr (2,
       [\<lparr>m = [Some 9007199254740992, Some 0, Some 0, Some 0,  Some 1, Some 0, Some 0, Some 0,
              Some 0, Some 0, Some 0, Some 0,  Some 0, Some 0, Some 0, Some 0]\<rparr>,
        \<lparr>m = [Some 1, Some 1, Some 0, Some 0,  Some 0, Some 0, Some 0, Some 0,
              Some 0, Some 0, Some 0, Some 0,  Some 0, Some 0, Some 0, Some 0]\<rparr>,
        \<lparr>m = [Some 9007199254740992, Some 0, Some 0, Some 0,  Some 0, Some 0, Some 0, Some 0,
              Some 0, Some 0, Some 0, Some 0,  Some 0, Some 0, Some 0, Some 0]\<rparr>]) \<and>
   Matrix_at
     [\<lparr>m = [Some 9007199254740992, Some 0, Some 0, Some 0,  Some 1, Some 0, Some 0, Some 0,
            Some 0, Some 0, Some 0, Some 0,  Some 0, Some 0, Some 0, Some 0]\<rparr>,
      \<lparr>m = [Some 1, Some 1, Some 0, Some 0,  Some 0, Some 0, Some 0, Some 0,
            Some 0, Some 0, Some 0, Some 0,  Some 0, Some 0, Some 0, Some 0]\<rparr>,
      \<lparr>m = [Some 9007199254740992, Some 0, Some 0, Some 0,  Some 0, Some 0, Some 0, Some 0,
            Some 0, Some 0, Some 0, Some 0,  Some 0, Some 0, Some 0, Some 0]\<rparr>] 2 0 0 =
     Some 9007199254740992 \<and>
   (9007199254740992 * 1 + 1 * 1 + 0 * 0 + 0 * 0 \<noteq> (9007199254740992::real))"
proof -
  let ?P = "\<lparr>m = [Some 9007199254740992, Some 0, Some 0, Some 0,  Some 1, Some 0, Some 0, Some 0,
            Some 0, Some 0, Some 0, Some 0,  Some 0, Some 0, Some 0, Some (0::real)]\<rparr>"
  let ?Q = "\<lparr>m = [Some 1, Some 1, Some 0, Some 0,  Some 0, Some 0, Some 0, Some 0,
            Some 0, Some 0, Some 0, Some 0,  Some 0, Some 0, Some 0, Some (0::real)]\<rparr>"
  have run: "Matrix_mul 0 1 [?P, ?Q] =
      Inr (length [?P, ?Q],
           [?P, ?Q] @ [\<lparr>m = map (\<lambda>idx. mul_val [?P, ?Q] 0 1 (idx mod 4) (idx div 4)) [0..<16]\<rparr>])"
    by (rule Matrix_mul_store) simp_all
  have vals: "map (\<lambda>idx. mul_val [?P, ?Q] 0 1 (idx mod 4) (idx div 4)) [0..<16] =
      [Some 9007199254740992, Some 0, Some 0, Some 0,  Some 0, Some 0, Some 0, Some 0,
       Some 0, Some 0, Some 0, Some 0,  Some 0, Some 0, Some 0, Some 0]"
    by (simp add: upt_0_16 upt_0_4 mul_val_def Matrix_at_def js_index_def num_add_def num_mul_def
        round_double_0 round_double_1 round_double_2_53 round_double_2_53_plus_1 del: upt_Suc)
  show ?thesis
    using run vals by (simp add: Matrix_at_def js_index_def del: upt_Suc)
qed

subsection \<open>Components\<close>

lemma components_adds: "components (fold add xs this) = components this @ xs"
  by (induction xs arbitrary: this) (simp_all add: add_def)

lemma get_loop_filter:
  "get_loop s type ns res = res @ filter (\<lambda>n. instanceof (s ! n) type) ns"
  by (induction ns arbitrary: res) simp_all

lemma instanceof_enabled_update [simp]:
  "instanceof (x\<lparr>enabled := e\<rparr>) type = instanceof x type"
  by (simp add: instanceof_def)

text \<open>
  C5. After any sequence \<open>xs\<close> of \<open>add\<close> calls on a new registry, \<open>get(type)\<close> returns the
  added references whose object is an instance of \<open>type\<close> (its class is \<open>type\<close> or has
  \<open>type\<close> further up its prototype chain), in the order they were added; the result is
  empty when no object matches, and the registry is left holding \<open>xs\<close> as before.
\<close>

theorem get_filters_in_insertion_order:
  assumes "\<forall>n\<in>set xs. n < length s"
  shows "get type s (fold add xs ComponentManager_new) =
           (filter (\<lambda>n. instanceof (s ! n) type) xs, fold add xs ComponentManager_new) \<and>
         components (fold add xs ComponentManager_new) = xs \<and>
         ((\<forall>n\<in>set xs. \<not> instanceof (s ! n) type) \<longrightarrow>
            fst (get type s (fold add xs ComponentManager_new)) = [])"
  by (simp add: get_def get_loop_filter components_adds ComponentManager_new_def)

theorem get_filters_in_insertion_order_witness:
  "(let s = [Sprite_new None None None None,
             \<lparr>proto = Proto ''Timer'' None, enabled = True,
              pos = (0, 0, 0), rot = (0, 0, 0), scl = (1, 1), col = (0, 0, 0, 0)\<rparr>,
             \<lparr>proto = Proto ''Button'' (Some (Proto ''Sprite'' None)), enabled = False,
              pos = (0, 0, 0), rot = (0, 0, 0), scl = (1, 1), col = (0, 0, 0, 0)\<rparr>]
    in fst (get ''Sprite'' s (fold add [0, 1, 2, 1] ComponentManager_new)) = [0, 2] \<and>
       fst (get ''Timer'' s (fold add [0, 1, 2, 1] ComponentManager_new)) = [1, 1] \<and>
       fst (get ''Camera'' s (fold add [0, 1, 2, 1] ComponentManager_new)) = [] \<and>
       components (snd (get ''Sprite'' s (fold add [0, 1, 2, 1] ComponentManager_new))) =
         [0, 1, 2, 1])"
proof -
  let ?s = "[Sprite_new None None None None,
             \<lparr>proto = Proto ''Timer'' None, enabled = True,
              pos = (0, 0, 0), rot = (0, 0, 0), scl = (1, 1), col = (0, 0, 0, 0)\<rparr>,
             \<lparr>proto = Proto ''Button'' (Some (Proto ''Sprite'' None)), enabled = False,
              pos = (0, 0, 0), rot = (0, 0, 0), scl = (1, 1), col = (0, 0, 0, 0)\<rparr>]"
  have valid: "\<forall>n\<in>set [0, 1, 2, 1]. n < length ?s"
    by simp
  show ?thesis
    using get_filters_in_insertion_order [OF valid, of "''Sprite''"]
      get_filters_in_insertion_order [OF valid, of "''Timer''"]
      get_filters_in_insertion_order [OF valid, of "''Camera''"]
    by (simp add: instanceof_def Sprite_new_def)
qed

text \<open>
  C8. Two component stores that hold the same objects up to their enabled flags give the
  same result for \<open>get(type)\<close>; in particular a registered instance of \<open>type\<close> is still
  returned after it has been disabled.
\<close>

theorem get_ignores_enabled:
  assumes "length s' = length s"
    and "\<forall>n<length s. s' ! n = (s ! n)\<lparr>enabled := enabled (s' ! n)\<rparr>"
    and "\<forall>n\<in>set (components this). n < length s"
  shows "fst (get type s' this) = fst (get type s this) \<and>
         (\<forall>n\<in>set (components this). instanceof (s ! n) type \<longrightarrow>
            n \<in> set (fst (get type (s[n := disable (s ! n)]) this)))"
proof
  have same: "instanceof (s' ! n) type = instanceof (s ! n) type" if "n \<in> set (components this)" for n
  proof -
    from that assms(3) have "n < length s" by blast
    with assms(2) have "s' ! n = (s ! n)\<lparr>enabled := enabled (s' ! n)\<rparr>" by blast
    then have "instanceof (s' ! n) type = instanceof ((s ! n)\<lparr>enabled := enabled (s' ! n)\<rparr>) type"
      by simp
    then show ?thesis by simp
  qed
  then have "filter (\<lambda>n. instanceof (s' ! n) type) (components this) =
      filter (\<lambda>n. instanceof (s ! n) type) (components this)"
    by (intro filter_cong) simp_all
  then show "fst (get type s' this) = fst (get type s this)"
    by (simp add: get_def get_loop_filter)
  show "\<forall>n\<in>set (components this). instanceof (s ! n) type \<longrightarrow>
      n \<in> set (fst (get type (s[n := disable (s ! n)]) this))"
    using assms(3) by (simp add: get_def get_loop_filter disable_def)
qed

theorem get_ignores_enabled_witness:
  "(let s = [Sprite_new None None None None,
             \<lparr>proto = Proto ''Timer'' None, enabled = True,
              pos = (0, 0, 0), rot = (0, 0, 0), scl = (1, 1), col = (0, 0, 0, 0)\<rparr>];
        s' = [disable (Sprite_new None None None None),
              \<lparr>proto = Proto ''Timer'' None, enabled = True,
               pos = (0, 0, 0), rot = (0, 0, 0), scl = (1, 1), col = (0, 0, 0, 0)\<rparr>];
        cm = \<lparr>components = [0, 1, 0]\<rparr>
    in length s' = length s \<and>
       isEnabled (s ! 0) = True \<and>
       isEnabled (s' ! 0) = False \<and>
       fst (get ''Sprite'' s cm) = [0, 0] \<and>
       fst (get ''Sprite'' s' cm) = [0, 0])"
proof -
  let ?s = "[Sprite_new None None None None,
             \<lparr>proto = Proto ''Timer'' None, enabled = True,
              pos = (0, 0, 0), rot = (0, 0, 0), scl = (1, 1), col = (0, 0, 0, 0)\<rparr>]"
  let ?s' = "[disable (Sprite_new None None None None),
              \<lparr>proto = Proto ''Timer'' None, enabled = True,
               pos = (0, 0, 0), rot = (0, 0, 0), scl = (1, 1), col = (0, 0, 0, 0)\<rparr>]"
  let ?cm = "\<lparr>components = [0, 1, 0]\<rparr>"
  have len: "length ?s' = length ?s" by simp
  have flags: "\<forall>n<length ?s. ?s' ! n = (?s ! n)\<lparr>enabled := enabled (?s' ! n)\<rparr>"
    by (simp add: less_Suc_eq disable_def Sprite_new_def numeral_2_eq_2)
  have valid: "\<forall>n\<in>set (components ?cm). n < length ?s" by simp
  have before: "fst (get ''Sprite'' ?s ?cm) = [0, 0]"
    by (simp add: get_def instanceof_def Sprite_new_def)
  from get_ignores_enabled [OF len flags valid, of "''Sprite''"] before
  have "fst (get ''Sprite'' ?s' ?cm) = [0, 0]" by simp
  with len before show ?thesis
    by (simp add: isEnabled_def disable_def Sprite_new_def)
qed

subsection \<open>Sprite\<close>

text \<open>
  C9. A sprite constructed with no arguments reports position \<open>[0, 0, 0]\<close>, rotation
  \<open>[0, 0, 0]\<close>, scale \<open>[1, 1]\<close>, colour \<open>[0, 0, 0, 0]\<close>, and is enabled.
\<close>

theorem Sprite_new_defaults:
  "getPosition (Sprite_new None None None None) = (0, 0, 0) \<and>
   getRotation (Sprite_new None None None None) = (0, 0, 0) \<and>
   getScale (Sprite_new None None None None) = (1, 1) \<and>
   getColor (Sprite_new None None None None) = (0, 0, 0, 0) \<and>
   isEnabled (Sprite_new None None None None) = True"
  by (simp add: Sprite_new_def getPosition_def getRotation_def getScale_def getColor_def
      isEnabled_def)

text \<open>
  C10. \<open>enable\<close> and \<open>disable\<close> change the enabled flag and nothing else: afterwards
  \<open>isEnabled\<close> is true, respectively false, and the four getters return what they returned
  before.
\<close>

theorem enable_disable_only_flag:
  fixes this :: Sprite
  shows "isEnabled (enable this) = True \<and> isEnabled (disable this) = False \<and>
         getPosition (enable this) = getPosition this \<and> getPosition (disable this) = getPosition this \<and>
         getRotation (enable this) = getRotation this \<and> getRotation (disable this) = getRotation this \<and>
         getScale (enable this) = getScale this \<and> getScale (disable this) = getScale this \<and>
         getColor (enable this) = getColor this \<and> getColor (disable this) = getColor this \<and>
         (enable this)\<lparr>enabled := enabled this\<rparr> = this \<and>
         (disable this)\<lparr>enabled := enabled this\<rparr> = this"
  by (simp add: enable_def disable_def isEnabled_def getPosition_def getRotation_def
      getScale_def getColor_def)


subsection \<open>Drawing\<close>

text \<open>
  C4. For a sprite with position \<open>(px, py, pz)\<close>, rotation \<open>(rx, ry, rz)\<close>, scale
  \<open>(sx, sy)\<close> and colour \<open>(r, g, b, a)\<close>, \<open>draw\<close> does not throw. From the fields as
  they are at the call it builds \<open>scaler(sx, sy, 1)\<close>, the rotation
  \<open>rotatorX(rx).mul(rotatorY(ry).mul(rotatorZ(rz)))\<close>, \<open>translator(px, py, pz)\<close> and the
  vector \<open>(r, g, b, a)\<close>, and calls the renderer's \<open>draw\<close> on these four, in this order,
  the matrices holding at the call what they held when they were built.
\<close>

theorem Sprite_draw_forwards:
  assumes "pos this = (px, py, pz)" and "rot this = (rx, ry, rz)"
    and "scl this = (sx, sy)" and "col this = (r, g, b, a)"
  shows "\<exists>matScl mx my mz myz matRot matTrs vecCol h1 h2 h3 h4 h5 h6 h7.
     scaler sx sy 1 h = Inr (matScl, h1) \<and>
     rotatorX rx h1 = Inr (mx, h2) \<and>
     rotatorY ry h2 = Inr (my, h3) \<and>
     rotatorZ rz h3 = Inr (mz, h4) \<and>
     Matrix_mul my mz h4 = Inr (myz, h5) \<and>
     Matrix_mul mx myz h5 = Inr (matRot, h6) \<and>
     translator px py pz h6 = Inr (matTrs, h7) \<and>
     Vector_new (Some [Some r, Some g, Some b, Some a]) = Inr vecCol \<and>
     Vector_get vecCol = [Some r, Some g, Some b, Some a] \<and>
     Matrix_get h7 matScl = Matrix_get h1 matScl \<and>
     Matrix_get h7 matRot = Matrix_get h6 matRot \<and>
     Sprite_draw this gl (h, calls) =
       Inr (h7, GLWrapper_draw gl matScl matRot matTrs vecCol h7 calls)"
  using assms
  by (simp add: Sprite_draw_def draw_args_def and_then_def scaler_def rotatorX_def rotatorY_def rotatorZ_def
      translator_def Matrix_new_16 Matrix_mul_store Vector_new_def Vector_get_def Matrix_get_def js_index_def nth_append
      del: upt_Suc)


theorem Sprite_draw_forwards_witness:
  "pos (Sprite_new (Some (0, 0, 40)) None (Some (100, 100)) (Some (1, 0, 0, 1))) = (0, 0, 40) \<and>
   rot (Sprite_new (Some (0, 0, 40)) None (Some (100, 100)) (Some (1, 0, 0, 1))) = (0, 0, 0) \<and>
   scl (Sprite_new (Some (0, 0, 40)) None (Some (100, 100)) (Some (1, 0, 0, 1))) = (100, 100) \<and>
   col (Sprite_new (Some (0, 0, 40)) None (Some (100, 100)) (Some (1, 0, 0, 1))) = (1, 0, 0, 1) \<and>
   (\<exists>matScl matRot matTrs vecCol h1 h6 h7.
      scaler 100 100 1 [] = Inr (matScl, h1) \<and>
      translator 0 0 40 h6 = Inr (matTrs, h7) \<and>
      Vector_get vecCol = [Some 1, Some 0, Some 0, Some 1] \<and>
      Sprite_draw (Sprite_new (Some (0, 0, 40)) None (Some (100, 100)) (Some (1, 0, 0, 1)))
          \<lparr>uniSclLoc = 0, uniRotLoc = 1, uniTrsLoc = 2, uniColLoc = 3\<rparr> ([], []) =
        Inr (h7, GLWrapper_draw \<lparr>uniSclLoc = 0, uniRotLoc = 1, uniTrsLoc = 2, uniColLoc = 3\<rparr>
                   matScl matRot matTrs vecCol h7 []))"
proof -
  let ?s = "Sprite_new (Some (0, 0, 40)) None (Some (100, 100)) (Some (1, 0, 0, 1))"
  have fields: "pos ?s = (0, 0, 40)" "rot ?s = (0, 0, 0)" "scl ?s = (100, 100)"
    "col ?s = (1, 0, 0, 1)"
    by (simp_all add: Sprite_new_def)
  from Sprite_draw_forwards [OF fields, of "[]" "\<lparr>uniSclLoc = 0, uniRotLoc = 1, uniTrsLoc = 2, uniColLoc = 3\<rparr>" "[]"]
  show ?thesis
    using fields by blast
qed

subsection \<open>Projection\<close>

lemma mat4_times_vec4_explicit:
  "mat4_times_vec4 [m0, m1, m2, m3, m4, m5, m6, m7, m8, m9, m10, m11, m12, m13, m14, m15] [x, y, z, w] =
     [m0 * x + m4 * y + m8 * z + m12 * w,
      m1 * x + m5 * y + m9 * z + m13 * w,
      m2 * x + m6 * y + m10 * z + m14 * w,
      m3 * x + m7 * y + m11 * z + m15 * w]"
  by (simp add: mat4_times_vec4_def upt_0_4 sum_lessThan_4)

subsection \<open>Set-up of the renderer\<close>


lemma gl_then_Inr:
  "gl_then f g calls = (Inr b, calls'') \<longleftrightarrow>
     (\<exists>a calls'. f calls = (Inr a, calls') \<and> g a calls' = (Inr b, calls''))"
  by (auto simp add: gl_then_def split: prod.splits sum.splits)

lemma gl_do_Inr: "gl_do cs calls = (Inr u, calls') \<longleftrightarrow> calls' = calls @ cs"
  by (auto simp add: gl_do_def)

lemma gl_return_Inr: "gl_return a calls = (Inr b, calls') \<longleftrightarrow> b = a \<and> calls' = calls"
  by (auto simp add: gl_return_def)

lemma gl_throw_Inr: "gl_throw e calls = (Inr b, calls') \<longleftrightarrow> False"
  by (simp add: gl_throw_def)

lemma createShader_Inr:
  "createShader env type code calls = (Inr sh, calls') \<longleftrightarrow>
     shader_created env type \<and> shader_compiled env type \<and> sh = Shader type \<and>
     calls' = calls @ [CreateShader type, ShaderSource (Shader type) code,
       CompileShader (Shader type), GetShaderParameter (Shader type) COMPILE_STATUS]"
  by (auto simp add: createShader_def gl_then_Inr gl_do_Inr gl_return_Inr gl_throw_Inr)

lemma createProgram_Inr:
  "createProgram env vs fs calls = (Inr p, calls') \<longleftrightarrow>
     program_created env \<and> program_linked env \<and>
     calls' = calls @ [CreateProgram, AttachShader Program vs, AttachShader Program fs,
       LinkProgram Program, GetProgramParameter Program LINK_STATUS]"
  by (cases p) (auto simp add: createProgram_def gl_then_Inr gl_do_Inr gl_return_Inr gl_throw_Inr)

lemma getUniLoc_Inr:
  "getUniLoc env p name calls = (Inr loc, calls') \<longleftrightarrow>
     uniform_location env name = Some loc \<and> calls' = calls @ [GetUniformLocation p name]"
  by (auto simp add: getUniLoc_def gl_then_Inr gl_do_Inr gl_return_Inr gl_throw_Inr
      split: option.splits)

lemma createBuffer_Inr:
  "createBuffer env type arr calls = (Inr b, calls') \<longleftrightarrow>
     buffer_created env type \<and> b = Buffer type \<and>
     calls' = calls @ [CreateBuffer, BindBuffer type (Some (Buffer type)),
       BufferData type arr STATIC_DRAW, BindBuffer type None]"
  by (auto simp add: createBuffer_def gl_then_Inr gl_do_Inr gl_return_Inr gl_throw_Inr)

lemma uploads_to_append:
  "uploads_to loc (cs @ ds) = uploads_to loc cs @ uploads_to loc ds"
  by (induction loc cs rule: uploads_to.induct) simp_all

lemma GLWrapper_setup_uploads:
  assumes "GLWrapper_setup env calls = (Inr this, calls')"
  shows "\<exists>locS locR locT locP locC.
      uniform_location env ''uniScl'' = Some locS \<and>
      uniform_location env ''uniRot'' = Some locR \<and>
      uniform_location env ''uniTrs'' = Some locT \<and>
      uniform_location env ''uniProj'' = Some locP \<and>
      uniform_location env ''uniCol'' = Some locC \<and>
      this = \<lparr>uniSclLoc = locS, uniRotLoc = locR, uniTrsLoc = locT, uniColLoc = locC\<rparr> \<and>
      (locC \<noteq> locP \<longrightarrow>
        uploads_to locP calls' =
          uploads_to locP calls @ [UniformMatrix4fv locP False (map Some matProj)])"
  using assms
  by (auto simp add: GLWrapper_setup_def gl_then_Inr gl_do_Inr gl_return_Inr createShader_Inr
      createProgram_Inr getUniLoc_Inr createBuffer_Inr uploads_to_append)


lemma GLWrapper_new_uploads:
  assumes "GLWrapper_new env = (Inr this, cv, calls)"
    and "uniform_location env ''uniProj'' = Some locP"
    and "uniColLoc this \<noteq> locP"
  shows "uploads_to locP calls = [UniformMatrix4fv locP False (map Some matProj)]"
proof -
  from assms(1) have "GLWrapper_setup env [] = (Inr this, calls)"
    by (auto simp add: GLWrapper_new_def split: if_splits prod.splits)
  from GLWrapper_setup_uploads [OF this] assms(2,3) show ?thesis
    by auto
qed

text \<open>
  C7. The projection matrix is \<open>diag(2/1280, 2/960, -2/100, 1)\<close>. Applied as the shader
  applies it, it sends a point \<open>(X, Y, Z, 1)\<close> to \<open>(X/640, Y/480, -Z/50, 1)\<close>, which lies
  in the clip cube whenever \<open>X\<close>, \<open>Y\<close>, \<open>Z\<close> are within \<open>[-640, 640]\<close>, \<open>[-480, 480]\<close>,
  \<open>[-50, 50]\<close>; the ends of the ranges go to \<open>1\<close> and \<open>-1\<close>, with \<open>Z = 50\<close> going to
  \<open>-1\<close>. A construction that succeeds uploads it exactly once to the location of
  \<open>uniProj\<close>, and \<open>draw\<close>, \<open>clear\<close> and \<open>flush\<close> upload nothing there (WebGL gives the
  uniforms of a program distinct locations, which is the hypothesis on \<open>locP\<close>).
\<close>

theorem matProj_orthographic:
  "matProj = [2 / 1280, 0, 0, 0,  0, 2 / 960, 0, 0,  0, 0, - 2 / 100, 0,  0, 0, 0, 1] \<and>
   (- 640 \<le> X \<and> X \<le> 640 \<and> - 480 \<le> Y \<and> Y \<le> 480 \<and> - 50 \<le> Z \<and> Z \<le> 50 \<longrightarrow>
      mat4_times_vec4 matProj [X, Y, Z, 1] = [X / 640, Y / 480, - Z / 50, 1] \<and>
      - 1 \<le> X / 640 \<and> X / 640 \<le> 1 \<and>
      - 1 \<le> Y / 480 \<and> Y / 480 \<le> 1 \<and>
      - 1 \<le> - Z / 50 \<and> - Z / 50 \<le> 1) \<and>
   mat4_times_vec4 matProj [640, 480, 50, 1] = [1, 1, - 1, 1] \<and>
   mat4_times_vec4 matProj [- 640, - 480, - 50, 1] = [- 1, - 1, 1, 1] \<and>
   (GLWrapper_new env = (Inr this, cv, calls) \<and>
    uniform_location env ''uniProj'' = Some locP \<and>
    locP \<notin> {uniSclLoc this, uniRotLoc this, uniTrsLoc this, uniColLoc this} \<longrightarrow>
      uploads_to locP calls = [UniformMatrix4fv locP False (map Some matProj)] \<and>
      uploads_to locP (GLWrapper_draw this matScl matRot matTrs vecCol h calls') =
        uploads_to locP calls' \<and>
      uploads_to locP (GLWrapper_clear this calls') = uploads_to locP calls' \<and>
      uploads_to locP (GLWrapper_flush this calls') = uploads_to locP calls')"
proof (intro conjI impI)
  show "matProj = [2 / 1280, 0, 0, 0,  0, 2 / 960, 0, 0,  0, 0, - 2 / 100, 0,  0, 0, 0, 1]"
    by (simp add: matProj_def VIEWPORT_WIDTH_def VIEWPORT_HEIGHT_def VIEWPORT_DEPTH_def)
  show "mat4_times_vec4 matProj [X, Y, Z, 1] = [X / 640, Y / 480, - Z / 50, 1]"
    and "mat4_times_vec4 matProj [640, 480, 50, 1] = [1, 1, - 1, 1]"
    and "mat4_times_vec4 matProj [- 640, - 480, - 50, 1] = [- 1, - 1, 1, 1]"
    by (simp_all add: matProj_def VIEWPORT_WIDTH_def VIEWPORT_HEIGHT_def VIEWPORT_DEPTH_def
        mat4_times_vec4_explicit)
next
  assume "- 640 \<le> X \<and> X \<le> 640 \<and> - 480 \<le> Y \<and> Y \<le> 480 \<and> - 50 \<le> Z \<and> Z \<le> 50"
  then show "- 1 \<le> X / 640" "X / 640 \<le> 1" "- 1 \<le> Y / 480" "Y / 480 \<le> 1"
    "- 1 \<le> - Z / 50" "- Z / 50 \<le> 1"
    by simp_all
next
  assume built: "GLWrapper_new env = (Inr this, cv, calls) \<and>
    uniform_location env ''uniProj'' = Some locP \<and>
    locP \<notin> {uniSclLoc this, uniRotLoc this, uniTrsLoc this, uniColLoc this}"
  then show "uploads_to locP calls = [UniformMatrix4fv locP False (map Some matProj)]"
    by (intro GLWrapper_new_uploads) auto
  from built show "uploads_to locP (GLWrapper_draw this matScl matRot matTrs vecCol h calls') =
      uploads_to locP calls'"
    by (auto simp add: GLWrapper_draw_def uploads_to_append)
  show "uploads_to locP (GLWrapper_clear this calls') = uploads_to locP calls'"
    by (simp add: GLWrapper_clear_def uploads_to_append)
  show "uploads_to locP (GLWrapper_flush this calls') = uploads_to locP calls'"
    by (simp add: GLWrapper_flush_def uploads_to_append)
qed

lemma example_browser_builds:
  "fst (GLWrapper_new \<lparr>has_canvas = True, innerWidth = 1920, innerHeight = 1080,
      has_webgl2 = True, shader_created = (\<lambda>_. True), shader_compiled = (\<lambda>_. True),
      program_created = True, program_linked = True,
      uniform_location = map_of [(''uniScl'', 0), (''uniRot'', 1), (''uniTrs'', 2),
        (''uniProj'', 3), (''uniCol'', 4)],
      buffer_created = (\<lambda>_. True)\<rparr>) =
    Inr \<lparr>uniSclLoc = 0, uniRotLoc = 1, uniTrsLoc = 2, uniColLoc = 4\<rparr>"
  by (simp add: GLWrapper_new_def GLWrapper_setup_def gl_then_def gl_do_def gl_return_def
      createShader_def createProgram_def getUniLoc_def createBuffer_def)

theorem matProj_orthographic_witness:
  "mat4_times_vec4 matProj [320, - 240, 25, 1] = [1 / 2, - 1 / 2, - 1 / 2, 1] \<and>
   mat4_times_vec4 matProj [640, 480, 50, 1] = [1, 1, - 1, 1] \<and>
   uploads_to 3 (snd (snd (GLWrapper_new \<lparr>has_canvas = True, innerWidth = 1920,
      innerHeight = 1080, has_webgl2 = True, shader_created = (\<lambda>_. True),
      shader_compiled = (\<lambda>_. True), program_created = True, program_linked = True,
      uniform_location = map_of [(''uniScl'', 0), (''uniRot'', 1), (''uniTrs'', 2),
        (''uniProj'', 3), (''uniCol'', 4)],
      buffer_created = (\<lambda>_. True)\<rparr>))) =
     [UniformMatrix4fv 3 False (map Some matProj)]"
proof -
  let ?env = "\<lparr>has_canvas = True, innerWidth = 1920,
      innerHeight = 1080, has_webgl2 = True, shader_created = (\<lambda>_. True),
      shader_compiled = (\<lambda>_. True), program_created = True, program_linked = True,
      uniform_location = map_of [(''uniScl'', 0), (''uniRot'', 1), (''uniTrs'', 2),
        (''uniProj'', 3), (''uniCol'', 4::nat)],
      buffer_created = (\<lambda>_. True)\<rparr>"
  let ?gw = "\<lparr>uniSclLoc = 0, uniRotLoc = 1, uniTrsLoc = 2, uniColLoc = 4\<rparr>"
  have built: "GLWrapper_new ?env = (Inr ?gw, fst (snd (GLWrapper_new ?env)), snd (snd (GLWrapper_new ?env)))"
    using example_browser_builds by (simp add: prod_eq_iff)
  have loc: "uniform_location ?env ''uniProj'' = Some 3"
    by simp
  have apart: "3 \<notin> {uniSclLoc ?gw, uniRotLoc ?gw, uniTrsLoc ?gw, uniColLoc ?gw}"
    by simp
  show ?thesis
    using matProj_orthographic [of 320 "- 240" 25 ?env ?gw "fst (snd (GLWrapper_new ?env))"
        "snd (snd (GLWrapper_new ?env))" 3] built loc apart
    by simp
qed

end
